theory Spec2Isabelle
  imports Main "HOL-Library.Word"
begin

section \<open>JavaScript values and the operators the skill uses\<close>

text \<open>
  The values that flow through \<^verbatim>\<open>lambda/index.js\<close>: slot values, session attributes,
  event fields and payload entries. \<open>Num w\<close> is the JavaScript number whose value is the
  integer \<open>sint w\<close>, between \<open>- 2^53\<close> and \<open>2^53 - 1\<close>: every such integer is a number of
  JavaScript, which prints it as its decimal numeral. Larger numbers and fractions are not
  values of the model. \<open>NaN\<close> is the not-a-number value, \<open>EmptyArray\<close> the literal \<^verbatim>\<open>[]\<close>
  that the code uses as a default. Strings are ASCII character lists.
\<close>

datatype jsval = Undefined | Null | Str string | Num "54 word" | NaN | EmptyArray

datatype error = TypeError | AskSdkError | ValidationError

text \<open>Truthiness, as the conditions \<^verbatim>\<open>!command\<close> and the operator \<^verbatim>\<open>||\<close> test it.\<close>

fun truthy :: "jsval \<Rightarrow> bool" where
  "truthy Undefined = False"
| "truthy Null = False"
| "truthy (Str s) = (s \<noteq> [])"
| "truthy (Num n) = (n \<noteq> 0)"
| "truthy NaN = False"
| "truthy EmptyArray = True"

definition js_or :: "jsval \<Rightarrow> jsval \<Rightarrow> jsval" where
  "js_or a b = (if truthy a then a else b)"

text \<open>
  Strict equality \<^verbatim>\<open>===\<close>: \<^verbatim>\<open>NaN\<close> equals nothing, and an array equals only itself
  (two arrays read from two JSON documents are two objects).
\<close>

fun strict_eq :: "jsval \<Rightarrow> jsval \<Rightarrow> bool" where
  "strict_eq NaN b = False"
| "strict_eq a NaN = False"
| "strict_eq EmptyArray b = False"
| "strict_eq a EmptyArray = False"
| "strict_eq a b = (a = b)"

subsection \<open>Numbers to text and back\<close>

definition digit_char :: "nat \<Rightarrow> char" where
  "digit_char d = ''0123456789'' ! d"

fun digits :: "nat \<Rightarrow> string" where
  "digits n = (if n < 10 then [digit_char n] else digits (n div 10) @ [digit_char (n mod 10)])"

declare digits.simps [simp del]

definition show_int :: "int \<Rightarrow> string" where
  "show_int i = (if i < 0 then CHR ''-'' # digits (nat (- i)) else digits (nat i))"

text \<open>\<^verbatim>\<open>String(v)\<close>, which template literals and \<^verbatim>\<open>+\<close> with a string apply to a value.\<close>

fun to_string :: "jsval \<Rightarrow> string" where
  "to_string Undefined = ''undefined''"
| "to_string Null = ''null''"
| "to_string (Str s) = s"
| "to_string (Num n) = show_int (sint n)"
| "to_string NaN = ''NaN''"
| "to_string EmptyArray = []"

definition is_js_space :: "char \<Rightarrow> bool" where
  "is_js_space c = (of_char c \<in> {9, 10, 11, 12, 13, 32 :: nat})"

definition digit_val :: "char \<Rightarrow> nat" where
  "digit_val c =
     (let k = (of_char c :: nat) in
      if 48 \<le> k \<and> k \<le> 57 then k - 48
      else if 97 \<le> k \<and> k \<le> 122 then k - 87
      else if 65 \<le> k \<and> k \<le> 90 then k - 55
      else 36)"

definition is_radix_digit :: "nat \<Rightarrow> char \<Rightarrow> bool" where
  "is_radix_digit R c = (digit_val c < R)"

definition digits_value :: "nat \<Rightarrow> string \<Rightarrow> nat" where
  "digits_value R ds = foldl (\<lambda>acc c. acc * R + digit_val c) 0 ds"

definition has_hex_prefix :: "string \<Rightarrow> bool" where
  "has_hex_prefix s = (take 2 s = ''0x'' \<or> take 2 s = ''0X'')"

text \<open>
  \<^verbatim>\<open>parseInt(string)\<close> with no radix: leading white space is skipped, one sign is read,
  a prefix \<^verbatim>\<open>0x\<close> selects radix 16, and the longest run of digits is the value; no digit
  gives \<^verbatim>\<open>NaN\<close>, written \<open>None\<close>. The value is kept as the integer the digits denote:
  the code only bounds it by 1 and 100 or compares it with 10, and the rounding of a long
  run of digits to a JavaScript number changes neither.
\<close>

definition parseInt_string :: "string \<Rightarrow> int option" where
  "parseInt_string s =
     (let s1 = dropWhile is_js_space s;
          neg = (take 1 s1 = ''-'');
          s2 = (if take 1 s1 = ''-'' \<or> take 1 s1 = ''+'' then drop 1 s1 else s1);
          R = (if has_hex_prefix s2 then 16 else 10);
          s3 = (if has_hex_prefix s2 then drop 2 s2 else s2);
          Z = takeWhile (is_radix_digit R) s3
      in if Z = [] then None
         else Some ((if neg then - 1 else 1) * int (digits_value R Z)))"

definition parseInt :: "jsval \<Rightarrow> int option" where
  "parseInt v = parseInt_string (to_string v)"

text \<open>\<^verbatim>\<open>Math.min\<close> and \<^verbatim>\<open>Math.max\<close> of two numbers: \<^verbatim>\<open>NaN\<close> is contagious.\<close>

definition Math_min :: "int option \<Rightarrow> int option \<Rightarrow> int option" where
  "Math_min a b = (case a of None \<Rightarrow> None | Some x \<Rightarrow> (case b of None \<Rightarrow> None | Some y \<Rightarrow> Some (min x y)))"

definition Math_max :: "int option \<Rightarrow> int option \<Rightarrow> int option" where
  "Math_max a b = (case a of None \<Rightarrow> None | Some x \<Rightarrow> (case b of None \<Rightarrow> None | Some y \<Rightarrow> Some (max x y)))"

text \<open>
  \<^verbatim>\<open>Math.max(1, Math.min(100, n))\<close> as a value: \<^verbatim>\<open>NaN\<close>, or a number between 1 and 100.
\<close>

definition bound_speed :: "int option \<Rightarrow> jsval" where
  "bound_speed n =
     (case Math_max (Some 1) (Math_min (Some 100) n) of
        None \<Rightarrow> NaN
      | Some k \<Rightarrow> Num (word_of_int k))"

section \<open>Requests, session attributes and responses\<close>

text \<open>
  A custom event of an \<^verbatim>\<open>EventsReceived\<close> request. Each of the three objects the code
  reads through may be missing, and reading a property of a missing object raises
  \<^verbatim>\<open>TypeError\<close>: \<open>header_name\<close> is \<^verbatim>\<open>header.name\<close>, \<open>endpoint_endpointId\<close> is
  \<^verbatim>\<open>endpoint.endpointId\<close>, and \<open>None\<close> says that \<^verbatim>\<open>header\<close>, \<^verbatim>\<open>endpoint\<close> or
  \<^verbatim>\<open>payload\<close> is absent.
\<close>

record custom_event =
  header_name :: "jsval option"
  endpoint_endpointId :: "jsval option"
  payload :: "(string \<times> jsval) list option"

text \<open>
  \<^verbatim>\<open>request.intent\<close>: its name, and its slots as a map from a slot name to the slot's
  value (\<open>Undefined\<close> for a slot sent without a value), \<open>None\<close> when the intent has no
  \<^verbatim>\<open>slots\<close> object.
\<close>

record intent =
  intent_name :: string
  intent_slots :: "(string \<times> jsval) list option"

text \<open>
  \<^verbatim>\<open>handlerInput.requestEnvelope.request\<close>. The objects \<^verbatim>\<open>intent\<close> and \<^verbatim>\<open>events\<close> may be
  missing (\<open>None\<close>) whatever the type of the request says; a request without a \<^verbatim>\<open>type\<close>
  behaves as one whose type is no name that the code tests.
\<close>

record request =
  rq_type :: string
  requestId :: string
  intent :: "intent option"
  rq_token :: jsval
  events :: "custom_event list option"

text \<open>
  The session attributes the handlers read and write; every invocation is within a
  session, whose attributes these are. An attribute that was never set is \<open>Undefined\<close>
  (\<open>None\<close> for \<open>duration\<close>, which only ever holds a number).
\<close>

record session =
  endpointId :: jsval
  duration :: "int option"
  token :: jsval
  speed :: jsval

text \<open>
  Modelled from the spec: \<^verbatim>\<open>util.js\<close> is not among the sources, so the two directive
  shapes follow the spec's data model, a command directive
  \<open>{targetEndpoint, namespace, name, payload}\<close> and a timer directive built from
  \<open>(token, durationMs, extraConfig)\<close>.
\<close>

datatype directive =
    SendDirective jsval string string "(string \<times> jsval) list"
  | StartEventHandler string nat "(string \<times> jsval) list"

record response =
  outputSpeech :: "string option"
  playBehavior :: "string option"
  directives :: "directive list"
  shouldEndSession :: "bool option"

subsection \<open>The response builder of the SDK\<close>

definition responseBuilder :: response where
  "responseBuilder =
     \<lparr>outputSpeech = None, playBehavior = None, directives = [], shouldEndSession = None\<rparr>"

definition speak :: "string \<Rightarrow> response \<Rightarrow> response" where
  "speak text r = r\<lparr>outputSpeech := Some text\<rparr>"

definition speak_with :: "string \<Rightarrow> string \<Rightarrow> response \<Rightarrow> response" where
  "speak_with text behaviour r = r\<lparr>outputSpeech := Some text, playBehavior := Some behaviour\<rparr>"

definition addDirective :: "directive \<Rightarrow> response \<Rightarrow> response" where
  "addDirective d r = r\<lparr>directives := directives r @ [d]\<rparr>"

definition withShouldEndSession :: "bool \<Rightarrow> response \<Rightarrow> response" where
  "withShouldEndSession b r = r\<lparr>shouldEndSession := Some b\<rparr>"

subsection \<open>Request utilities of the SDK\<close>

definition getRequestType :: "request \<Rightarrow> string" where
  "getRequestType env = rq_type env"

text \<open>
  \<^verbatim>\<open>Alexa.getIntentName\<close> reads \<^verbatim>\<open>request.intent.name\<close> of an intent request: a missing
  \<^verbatim>\<open>intent\<close> raises \<^verbatim>\<open>TypeError\<close>, another type of request an SDK error.
\<close>

definition getIntentName :: "request \<Rightarrow> error + string" where
  "getIntentName env =
     (if getRequestType env = ''IntentRequest''
      then (case intent env of None \<Rightarrow> Inl TypeError | Some i \<Rightarrow> Inr (intent_name i))
      else Inl AskSdkError)"

text \<open>
  The predicate of every intent handler:
  \<^verbatim>\<open>getRequestType(envelope) === 'IntentRequest' && getIntentName(envelope) === name\<close>,
  where the second operand is evaluated only if the first holds.
\<close>

definition isIntent :: "request \<Rightarrow> string \<Rightarrow> error + bool" where
  "isIntent env name =
     (if getRequestType env = ''IntentRequest''
      then (case getIntentName env of Inl e \<Rightarrow> Inl e | Inr n \<Rightarrow> Inr (n = name))
      else Inr False)"

text \<open>The value of a slot of an intent, \<^verbatim>\<open>null\<close> when the intent has no such slot.\<close>

definition slot_value :: "intent \<Rightarrow> string \<Rightarrow> jsval" where
  "slot_value i slotName =
     (case intent_slots i of
        None \<Rightarrow> Null
      | Some sl \<Rightarrow> (case map_of sl slotName of None \<Rightarrow> Null | Some v \<Rightarrow> v))"

text \<open>
  \<^verbatim>\<open>Alexa.getSlotValue\<close> reads \<^verbatim>\<open>request.intent.slots\<close> of an intent request: a missing
  \<^verbatim>\<open>intent\<close> raises \<^verbatim>\<open>TypeError\<close>, another type of request an SDK error.
\<close>

definition getSlotValue :: "request \<Rightarrow> string \<Rightarrow> error + jsval" where
  "getSlotValue env slotName =
     (if getRequestType env = ''IntentRequest''
      then (case intent env of None \<Rightarrow> Inl TypeError | Some i \<Rightarrow> Inr (slot_value i slotName))
      else Inl AskSdkError)"

subsection \<open>The helpers of util.js\<close>

text \<open>
  Modelled from the spec: \<^verbatim>\<open>Util.build\<close> is the spec's \<open>buildControlDirective\<close>, which
  is pure and "fails with ValidationError if endpointId is empty (no gadget connected)".
  The handlers pass \<^verbatim>\<open>endpointId || []\<close>, so an empty endpoint is the empty array or a
  falsy value.
\<close>

definition Util_build ::
    "jsval \<Rightarrow> string \<Rightarrow> string \<Rightarrow> (string \<times> jsval) list \<Rightarrow> error + directive" where
  "Util_build eid namespace name pl =
     (if truthy eid \<and> eid \<noteq> EmptyArray then Inr (SendDirective eid namespace name pl)
      else Inl ValidationError)"

text \<open>
  Modelled from the spec: \<^verbatim>\<open>Util.buildStartEventHandler\<close> is the spec's
  \<open>buildStartTimer(token, durationMs, extraConfig)\<close>, a directive that starts a countdown
  of \<open>durationMs\<close> and carries \<open>token\<close> for correlation.
\<close>

definition Util_buildStartEventHandler ::
    "string \<Rightarrow> nat \<Rightarrow> (string \<times> jsval) list \<Rightarrow> directive" where
  "Util_buildStartEventHandler tok timeout pl = StartEventHandler tok timeout pl"

section \<open>The handlers of index.js\<close>

definition BG_MUSIC :: string where
  \<open>BG_MUSIC = ''<audio src="soundbank://soundlibrary/ui/gameshow/amzn_ui_sfx_gameshow_waiting_loop_30s_01"/>''\<close>

definition NAMESPACE :: string where
  "NAMESPACE = ''Custom.Mindstorms.Gadget''"

definition NAME_CONTROL :: string where
  "NAME_CONTROL = ''control''"

text \<open>
  A handler's \<^verbatim>\<open>handle\<close> returns the response together with the session attributes as
  it leaves them, or the error it raises. The result of the discovery call
  \<^verbatim>\<open>Util.getConnectedEndpoints\<close> is an input: the \<^verbatim>\<open>endpointId\<close> of each endpoint of
  \<^verbatim>\<open>apiResponse.endpoints\<close>, \<open>None\<close> when the response has no \<^verbatim>\<open>endpoints\<close>.
\<close>

type_synonym api_response = "jsval list option"

type_synonym outcome = "error + response \<times> session"

definition LaunchRequestHandler_canHandle :: "request \<Rightarrow> bool" where
  "LaunchRequestHandler_canHandle env = (getRequestType env = ''LaunchRequest'')"

definition LaunchRequestHandler_handle :: "api_response \<Rightarrow> request \<Rightarrow> session \<Rightarrow> outcome" where
  "LaunchRequestHandler_handle apiResponse env s =
     (case (case apiResponse of None \<Rightarrow> [] | Some es \<Rightarrow> es) of
        [] \<Rightarrow>
          Inr (speak ''I couldn't find an EV3 Brick connected to this Echo device. Please check to make sure your EV3 Brick is connected, and try again.''
                 responseBuilder, s)
      | e # _ \<Rightarrow>
          (let s1 = s\<lparr>endpointId := js_or e EmptyArray\<rparr>;
               s2 = s1\<lparr>duration := Some 10\<rparr>;
               tok = requestId env;
               s3 = s2\<lparr>token := Str tok\<rparr>
           in Inr (addDirective (Util_buildStartEventHandler tok 60000 [])
                     (speak (''Welcome, Gripper Helper is here for your command'' @ BG_MUSIC)
                        responseBuilder), s3)))"

definition ComeIntentHandler_canHandle :: "request \<Rightarrow> error + bool" where
  "ComeIntentHandler_canHandle env = isIntent env ''ComeIntent''"

definition ComeIntentHandler_handle :: "request \<Rightarrow> session \<Rightarrow> outcome" where
  "ComeIntentHandler_handle env s = Inr (speak ''Hello, finally hit'' responseBuilder, s)"

definition BringIntentHandler_canHandle :: "request \<Rightarrow> error + bool" where
  "BringIntentHandler_canHandle env = isIntent env ''BringIntent''"

definition BringIntentHandler_handle :: "request \<Rightarrow> session \<Rightarrow> outcome" where
  "BringIntentHandler_handle env s =
     (case getSlotValue env ''Bring'' of
        Inl e \<Rightarrow> Inl e
      | Inr command \<Rightarrow>
          if \<not> truthy command
          then Inr (withShouldEndSession False (speak ''Can you repeat that?'' responseBuilder), s)
          else (case Util_build (js_or (endpointId s) EmptyArray) NAMESPACE NAME_CONTROL
                       [(''type'', Str ''bring''), (''command'', command),
                        (''speed'', js_or (speed s) (Str ''50''))] of
                  Inl e \<Rightarrow> Inl e
                | Inr d \<Rightarrow>
                    Inr (addDirective d (speak (''bring me stuff'' @ BG_MUSIC) responseBuilder), s)))"

definition TakeIntentHandler_canHandle :: "request \<Rightarrow> error + bool" where
  "TakeIntentHandler_canHandle env = isIntent env ''TakeIntent''"

definition TakeIntentHandler_handle :: "request \<Rightarrow> session \<Rightarrow> outcome" where
  "TakeIntentHandler_handle env s =
     (case getSlotValue env ''Take'' of
        Inl e \<Rightarrow> Inl e
      | Inr command \<Rightarrow>
          if \<not> truthy command
          then Inr (withShouldEndSession False (speak ''Can you repeat that?'' responseBuilder), s)
          else (case Util_build (js_or (endpointId s) EmptyArray) NAMESPACE NAME_CONTROL
                       [(''type'', Str ''take''), (''command'', command),
                        (''speed'', js_or (speed s) (Str ''50''))] of
                  Inl e \<Rightarrow> Inl e
                | Inr d \<Rightarrow>
                    Inr (addDirective d (speak (''take this'' @ BG_MUSIC) responseBuilder), s)))"

definition SetSpeedIntentHandler_canHandle :: "request \<Rightarrow> error + bool" where
  "SetSpeedIntentHandler_canHandle env = isIntent env ''SetSpeedIntent''"

definition SetSpeedIntentHandler_handle :: "request \<Rightarrow> session \<Rightarrow> outcome" where
  "SetSpeedIntentHandler_handle env s =
     (case getSlotValue env ''Speed'' of
        Inl e \<Rightarrow> Inl e
      | Inr raw \<Rightarrow>
          (let spd = bound_speed (parseInt raw)
           in Inr (speak (''speed set to '' @ to_string spd @ '' percent.'' @ BG_MUSIC)
                     responseBuilder,
                   s\<lparr>speed := spd\<rparr>)))"

definition MoveIntentHandler_canHandle :: "request \<Rightarrow> error + bool" where
  "MoveIntentHandler_canHandle env = isIntent env ''MoveIntent''"

definition MoveIntentHandler_handle :: "request \<Rightarrow> session \<Rightarrow> outcome" where
  "MoveIntentHandler_handle env s =
     (case getSlotValue env ''Direction'' of
        Inl e \<Rightarrow> Inl e
      | Inr direction \<Rightarrow>
          (case getSlotValue env ''Duration'' of
             Inl e \<Rightarrow> Inl e
           | Inr d \<Rightarrow>
               (let dur = js_or d (Str ''2'');
                    spd = js_or (speed s) (Str ''50'')
                in case Util_build (js_or (endpointId s) EmptyArray) NAMESPACE NAME_CONTROL
                          [(''type'', Str ''move''), (''direction'', direction),
                           (''duration'', dur), (''speed'', spd)] of
                     Inl e \<Rightarrow> Inl e
                   | Inr dir \<Rightarrow>
                       Inr (addDirective dir
                              (speak ((if strict_eq direction (Str ''brake'')
                                       then ''Applying brake''
                                       else to_string direction @ '' '' @ to_string dur
                                            @ '' seconds at '' @ to_string spd
                                            @ '' percent speed'') @ BG_MUSIC)
                                 responseBuilder), s))))"

definition SetCommandIntentHandler_canHandle :: "request \<Rightarrow> error + bool" where
  "SetCommandIntentHandler_canHandle env = isIntent env ''SetCommandIntent''"

definition SetCommandIntentHandler_handle :: "request \<Rightarrow> session \<Rightarrow> outcome" where
  "SetCommandIntentHandler_handle env s =
     (case getSlotValue env ''Command'' of
        Inl e \<Rightarrow> Inl e
      | Inr command \<Rightarrow>
          if \<not> truthy command
          then Inr (withShouldEndSession False (speak ''Can you repeat that?'' responseBuilder), s)
          else (case Util_build (js_or (endpointId s) EmptyArray) NAMESPACE NAME_CONTROL
                       [(''type'', Str ''command''), (''command'', command),
                        (''speed'', js_or (speed s) (Str ''50''))] of
                  Inl e \<Rightarrow> Inl e
                | Inr d \<Rightarrow>
                    Inr (addDirective d
                           (speak ((if strict_eq command (Str ''sentry'')
                                      \<or> strict_eq command (Str ''sentry mode'')
                                    then []
                                    else ''command '' @ to_string command @ '' activated'')
                                   @ BG_MUSIC)
                              responseBuilder), s)))"

text \<open>
  The predicate of the event handler reads \<^verbatim>\<open>request.events[0]\<close> first, which raises
  when the request has no \<^verbatim>\<open>events\<close>, then compares the tokens, and then reads
  \<^verbatim>\<open>customEvent.endpoint.endpointId\<close>, which raises when there is no first event or
  the event has no \<^verbatim>\<open>endpoint\<close>.
\<close>

definition EventsReceivedRequestHandler_canHandle :: "request \<Rightarrow> session \<Rightarrow> error + bool" where
  "EventsReceivedRequestHandler_canHandle env s =
     (if rq_type env \<noteq> ''CustomInterfaceController.EventsReceived'' then Inr False
      else (case events env of
              None \<Rightarrow> Inl TypeError
            | Some evs \<Rightarrow>
                if \<not> strict_eq (token s) (rq_token env) then Inr False
                else (case evs of
                        [] \<Rightarrow> Inl TypeError
                      | customEvent # _ \<Rightarrow>
                          (case endpoint_endpointId customEvent of
                             None \<Rightarrow> Inl TypeError
                           | Some requestEndpoint \<Rightarrow>
                               if \<not> strict_eq requestEndpoint (endpointId s) then Inr False
                               else Inr True))))"

text \<open>
  \<^verbatim>\<open>distance < 10\<close> on the result of \<^verbatim>\<open>parseInt\<close>: a comparison with \<^verbatim>\<open>NaN\<close> is false.
\<close>

definition less_than :: "int option \<Rightarrow> int \<Rightarrow> bool" where
  "less_than a n = (case a of None \<Rightarrow> False | Some x \<Rightarrow> x < n)"

definition get_prop :: "(string \<times> jsval) list \<Rightarrow> string \<Rightarrow> jsval" where
  "get_prop obj k = (case map_of obj k of None \<Rightarrow> Undefined | Some v \<Rightarrow> v)"

definition has_key :: "string \<Rightarrow> (string \<times> jsval) list \<Rightarrow> bool" where
  "has_key k obj = (map_of obj k \<noteq> None)"

text \<open>The last statement of the event handler: \<^verbatim>\<open>speak(speechOutput + BG_MUSIC, "REPLACE_ALL")\<close>.\<close>

definition speak_event :: "jsval \<Rightarrow> session \<Rightarrow> outcome" where
  "speak_event speechOutput s =
     Inr (speak_with (to_string speechOutput @ BG_MUSIC) ''REPLACE_ALL'' responseBuilder, s)"

definition EventsReceivedRequestHandler_handle :: "request \<Rightarrow> session \<Rightarrow> outcome" where
  "EventsReceivedRequestHandler_handle env s =
     (case (case events env of None \<Rightarrow> [] | Some evs \<Rightarrow> evs) of
        [] \<Rightarrow> Inl TypeError
      | customEvent # _ \<Rightarrow>
          (case header_name customEvent of
             None \<Rightarrow> Inl TypeError
           | Some name \<Rightarrow>
               if strict_eq name (Str ''Proximity'') then
                 (case payload customEvent of
                    None \<Rightarrow> Inl TypeError
                  | Some pl \<Rightarrow>
                      if less_than (parseInt (get_prop pl ''distance'')) 10
                      then Inr (withShouldEndSession False
                                  (speak_with ''Intruder detected! What would you like to do?''
                                     ''REPLACE_ALL'' responseBuilder), s)
                      else speak_event Undefined s)
               else if strict_eq name (Str ''Sentry'') then
                 (case payload customEvent of
                    None \<Rightarrow> Inl TypeError
                  | Some pl \<Rightarrow>
                      if has_key ''fire'' pl then speak_event (Str ''Threat eliminated'') s
                      else if has_key ''move'' pl
                      then speak_event (Str ''I cowarded to the threats, and now gone in hiding'') s
                      else speak_event Undefined s)
               else if strict_eq name (Str ''Speech'') then
                 (case payload customEvent of
                    None \<Rightarrow> Inl TypeError
                  | Some pl \<Rightarrow> speak_event (get_prop pl ''speechOut'') s)
               else speak_event (Str ''Event not recognized. Awaiting new command.'') s))"

definition ExpiredRequestHandler_canHandle :: "request \<Rightarrow> bool" where
  "ExpiredRequestHandler_canHandle env =
     (getRequestType env = ''CustomInterfaceController.Expired'')"

text \<open>\<^verbatim>\<open>getSessionAttributes().duration || 0\<close>: an unset budget counts as none left.\<close>

definition or_zero :: "int option \<Rightarrow> int" where
  "or_zero d = (case d of None \<Rightarrow> 0 | Some n \<Rightarrow> n)"

definition ExpiredRequestHandler_handle :: "request \<Rightarrow> session \<Rightarrow> outcome" where
  "ExpiredRequestHandler_handle env s =
     (let tok = requestId env;
          s1 = s\<lparr>token := Str tok\<rparr>;
          dur = or_zero (duration s1)
      in if dur > 0
         then Inr (speak (show_int (dur - 1) @ '' minutes remaining.'' @ BG_MUSIC)
                     (addDirective (Util_buildStartEventHandler tok 60000 []) responseBuilder),
                   s1\<lparr>duration := Some (dur - 1)\<rparr>)
         else Inr (withShouldEndSession True
                     (speak ''Skill duration expired. Goodbye.'' responseBuilder), s1))"

section \<open>The entry point\<close>

datatype request_handler =
    LaunchRequestHandler | ComeIntentHandler | TakeIntentHandler | BringIntentHandler
  | EventsReceivedRequestHandler | ExpiredRequestHandler
  | SetSpeedIntentHandler | MoveIntentHandler | SetCommandIntentHandler

fun canHandle :: "request_handler \<Rightarrow> request \<Rightarrow> session \<Rightarrow> error + bool" where
  "canHandle LaunchRequestHandler env s = Inr (LaunchRequestHandler_canHandle env)"
| "canHandle ComeIntentHandler env s = ComeIntentHandler_canHandle env"
| "canHandle TakeIntentHandler env s = TakeIntentHandler_canHandle env"
| "canHandle BringIntentHandler env s = BringIntentHandler_canHandle env"
| "canHandle EventsReceivedRequestHandler env s = EventsReceivedRequestHandler_canHandle env s"
| "canHandle ExpiredRequestHandler env s = Inr (ExpiredRequestHandler_canHandle env)"
| "canHandle SetSpeedIntentHandler env s = SetSpeedIntentHandler_canHandle env"
| "canHandle MoveIntentHandler env s = MoveIntentHandler_canHandle env"
| "canHandle SetCommandIntentHandler env s = SetCommandIntentHandler_canHandle env"

fun handle :: "api_response \<Rightarrow> request_handler \<Rightarrow> request \<Rightarrow> session \<Rightarrow> outcome" where
  "handle api LaunchRequestHandler env s = LaunchRequestHandler_handle api env s"
| "handle api ComeIntentHandler env s = ComeIntentHandler_handle env s"
| "handle api TakeIntentHandler env s = TakeIntentHandler_handle env s"
| "handle api BringIntentHandler env s = BringIntentHandler_handle env s"
| "handle api EventsReceivedRequestHandler env s = EventsReceivedRequestHandler_handle env s"
| "handle api ExpiredRequestHandler env s = ExpiredRequestHandler_handle env s"
| "handle api SetSpeedIntentHandler env s = SetSpeedIntentHandler_handle env s"
| "handle api MoveIntentHandler env s = MoveIntentHandler_handle env s"
| "handle api SetCommandIntentHandler env s = SetCommandIntentHandler_handle env s"

text \<open>
  The handlers that \<^verbatim>\<open>addRequestHandlers\<close> registers from this file, in its order. The
  four handlers of \<^verbatim>\<open>common.js\<close> follow them in the list; \<^verbatim>\<open>SetSpeedIntentHandler\<close>,
  \<^verbatim>\<open>MoveIntentHandler\<close> and \<^verbatim>\<open>SetCommandIntentHandler\<close> are defined but not registered.
\<close>

definition requestHandlers :: "request_handler list" where
  "requestHandlers =
     [LaunchRequestHandler, ComeIntentHandler, TakeIntentHandler, BringIntentHandler,
      EventsReceivedRequestHandler, ExpiredRequestHandler]"

text \<open>The SDK asks each registered handler in turn; the first whose predicate holds is chosen.\<close>

fun getRequestHandler ::
    "request_handler list \<Rightarrow> request \<Rightarrow> session \<Rightarrow> error + request_handler option" where
  "getRequestHandler [] env s = Inr None"
| "getRequestHandler (h # hs) env s =
     (case canHandle h env s of
        Inl e \<Rightarrow> Inl e
      | Inr True \<Rightarrow> Inr (Some h)
      | Inr False \<Rightarrow> getRequestHandler hs env s)"

text \<open>
  \<^verbatim>\<open>exports.handler\<close>. The module \<^verbatim>\<open>common.js\<close> is not among the sources, so its part
  is a parameter: \<open>common\<close> is what the invocation returns once no handler of this file
  has claimed the request (the handlers \<^verbatim>\<open>Common.HelpIntentHandler\<close> to
  \<^verbatim>\<open>Common.IntentReflectorHandler\<close> and the case that none of them matches), \<open>onError\<close>
  is \<^verbatim>\<open>Common.ErrorHandler\<close>, which receives whatever a predicate or a handler raises.
  \<^verbatim>\<open>Common.RequestInterceptor\<close>, which the SDK runs before the predicates, is outside the
  sources as well; the spec knows it as logging only, and it is left out.
\<close>

definition handler ::
    "(request \<Rightarrow> session \<Rightarrow> response \<times> session) \<Rightarrow>
     (error \<Rightarrow> request \<Rightarrow> session \<Rightarrow> response \<times> session) \<Rightarrow>
     api_response \<Rightarrow> request \<Rightarrow> session \<Rightarrow> response \<times> session" where
  "handler common onError api env s =
     (case getRequestHandler requestHandlers env s of
        Inl e \<Rightarrow> onError e env s
      | Inr None \<Rightarrow> common env s
      | Inr (Some h) \<Rightarrow>
          (case handle api h env s of
             Inl e \<Rightarrow> onError e env s
           | Inr r \<Rightarrow> r))"

text \<open>
  Modelled from the spec: the answer of \<^verbatim>\<open>common.js\<close> to an event request that no
  handler of this file claims. The spec has such an event "silently dropped, not
  errored" (section 3), "dropped without any spoken response and without state mutation"
  (section 4.5), with "no response mutation" (section 7) and "no directive" (section 8).
  The definition stands for \<^verbatim>\<open>common.js\<close> on those requests only.
\<close>

definition Common_drop :: "request \<Rightarrow> session \<Rightarrow> response \<times> session" where
  "Common_drop env s = (responseBuilder, s)"

text \<open>
  Modelled from the spec: \<^verbatim>\<open>Common.ErrorHandler\<close>, the "top-level error boundary, which
  logs and returns a generic spoken apology with the session kept open". The spec gives
  no wording for the apology.
\<close>

definition Common_ErrorHandler :: "error \<Rightarrow> request \<Rightarrow> session \<Rightarrow> response \<times> session" where
  "Common_ErrorHandler e env s =
     (withShouldEndSession False (speak ''Sorry, something went wrong.'' responseBuilder), s)"

section \<open>Sample requests and sessions\<close>

definition new_session :: session where
  "new_session = \<lparr>endpointId = Undefined, duration = None, token = Undefined, speed = Undefined\<rparr>"

definition live_session :: session where
  "live_session =
     \<lparr>endpointId = Str ''E1'', duration = Some 3, token = Str ''t1'', speed = Undefined\<rparr>"

definition plain_request :: "string \<Rightarrow> string \<Rightarrow> request" where
  "plain_request ty rid =
     \<lparr>rq_type = ty, requestId = rid, intent = None, rq_token = Undefined, events = None\<rparr>"

definition intent_request :: "string \<Rightarrow> string \<Rightarrow> (string \<times> jsval) list \<Rightarrow> request" where
  "intent_request rid name sl =
     \<lparr>rq_type = ''IntentRequest'', requestId = rid,
      intent = Some \<lparr>intent_name = name, intent_slots = Some sl\<rparr>,
      rq_token = Undefined, events = None\<rparr>"

definition event_request :: "jsval \<Rightarrow> custom_event list \<Rightarrow> request" where
  "event_request tok evs =
     \<lparr>rq_type = ''CustomInterfaceController.EventsReceived'', requestId = ''r8'',
      intent = None, rq_token = tok, events = Some evs\<rparr>"

definition gadget_event :: "string \<Rightarrow> string \<Rightarrow> (string \<times> jsval) list \<Rightarrow> custom_event" where
  "gadget_event name eid pl =
     \<lparr>header_name = Some (Str name), endpoint_endpointId = Some (Str eid), payload = Some pl\<rparr>"

text \<open>The response of the three handlers that check their slot, when the slot is missing.\<close>

definition reprompt :: response where
  "reprompt =
     \<lparr>outputSpeech = Some ''Can you repeat that?'', playBehavior = None, directives = [],
      shouldEndSession = Some False\<rparr>"

section \<open>The directive of a command, as a function of slots and session\<close>

text \<open>The handlers whose body builds a directive for the gadget.\<close>

definition directive_handlers :: "request_handler list" where
  "directive_handlers =
     [BringIntentHandler, TakeIntentHandler, MoveIntentHandler, SetCommandIntentHandler]"

text \<open>
  Whether the slot that a handler insists on has a value: \<^verbatim>\<open>Bring\<close>, \<^verbatim>\<open>Take\<close> and
  \<^verbatim>\<open>Command\<close> for the three handlers that re-prompt without it; the handler of
  \<^verbatim>\<open>MoveIntent\<close> insists on none.
\<close>

fun slot_present :: "request_handler \<Rightarrow> intent \<Rightarrow> bool" where
  "slot_present BringIntentHandler i = truthy (slot_value i ''Bring'')"
| "slot_present TakeIntentHandler i = truthy (slot_value i ''Take'')"
| "slot_present SetCommandIntentHandler i = truthy (slot_value i ''Command'')"
| "slot_present h i = True"

text \<open>
  The payload that the spec gives a command directive (section 4.4), as a function of the
  intent's slots and the speed: the \<open>type\<close> of the command, its own fields (direction and
  duration for a move, the command string for the others) and the speed. The duration of
  a move that names none is \<^verbatim>\<open>"2"\<close>.
\<close>

fun command_payload :: "request_handler \<Rightarrow> intent \<Rightarrow> jsval \<Rightarrow> (string \<times> jsval) list" where
  "command_payload BringIntentHandler i spd =
     [(''type'', Str ''bring''), (''command'', slot_value i ''Bring''), (''speed'', spd)]"
| "command_payload TakeIntentHandler i spd =
     [(''type'', Str ''take''), (''command'', slot_value i ''Take''), (''speed'', spd)]"
| "command_payload SetCommandIntentHandler i spd =
     [(''type'', Str ''command''), (''command'', slot_value i ''Command''), (''speed'', spd)]"
| "command_payload MoveIntentHandler i spd =
     [(''type'', Str ''move''), (''direction'', slot_value i ''Direction''),
      (''duration'', js_or (slot_value i ''Duration'') (Str ''2'')), (''speed'', spd)]"
| "command_payload h i spd = []"

section \<open>Routing\<close>

lemmas canHandle_defs =
  LaunchRequestHandler_canHandle_def ComeIntentHandler_canHandle_def
  TakeIntentHandler_canHandle_def BringIntentHandler_canHandle_def
  ExpiredRequestHandler_canHandle_def SetSpeedIntentHandler_canHandle_def
  MoveIntentHandler_canHandle_def SetCommandIntentHandler_canHandle_def
  isIntent_def getIntentName_def getRequestType_def

lemmas builder_defs =
  responseBuilder_def speak_def speak_with_def addDirective_def withShouldEndSession_def
  Util_buildStartEventHandler_def

lemmas sample_defs =
  new_session_def live_session_def plain_request_def intent_request_def event_request_def
  gadget_event_def

lemma select_launch:
  "rq_type env = ''LaunchRequest'' \<Longrightarrow>
   getRequestHandler requestHandlers env s = Inr (Some LaunchRequestHandler)"
  by (simp add: requestHandlers_def canHandle_defs)

lemma select_expired:
  "rq_type env = ''CustomInterfaceController.Expired'' \<Longrightarrow>
   getRequestHandler requestHandlers env s = Inr (Some ExpiredRequestHandler)"
  by (simp add: requestHandlers_def canHandle_defs EventsReceivedRequestHandler_canHandle_def)

text \<open>An event request is claimed by the event handler or by no handler of this file.\<close>

lemma select_event:
  "rq_type env = ''CustomInterfaceController.EventsReceived'' \<Longrightarrow>
   getRequestHandler requestHandlers env s =
     (case EventsReceivedRequestHandler_canHandle env s of
        Inl e \<Rightarrow> Inl e
      | Inr True \<Rightarrow> Inr (Some EventsReceivedRequestHandler)
      | Inr False \<Rightarrow> Inr None)"
  by (simp add: requestHandlers_def canHandle_defs split: sum.splits bool.splits)

lemma validated_is_event:
  "EventsReceivedRequestHandler_canHandle env s = Inr True \<Longrightarrow>
   rq_type env = ''CustomInterfaceController.EventsReceived''"
  by (simp add: EventsReceivedRequestHandler_canHandle_def split: if_splits)


text \<open>
  The three intents whose handlers are defined but not registered never reach them: the
  request goes on to the handlers of \<^verbatim>\<open>common.js\<close>.
\<close>

lemma unregistered_intents_fall_through:
  assumes "rq_type env = ''IntentRequest''" and "intent env = Some i"
    and "intent_name i \<in> {''SetSpeedIntent'', ''MoveIntent'', ''SetCommandIntent''}"
  shows "handler common onError api env s = common env s"
  using assms
  by (auto simp: handler_def requestHandlers_def canHandle_defs
      EventsReceivedRequestHandler_canHandle_def)

section \<open>Stale events\<close>



text \<open>
  A stale request without its \<^verbatim>\<open>events\<close> array is not dropped by the predicate: the read
  of \<^verbatim>\<open>request.events[0]\<close> comes first and raises.
\<close>

lemma stale_event_without_events_raises:
  "rq_type env = ''CustomInterfaceController.EventsReceived'' \<Longrightarrow> events env = None \<Longrightarrow>
   handler common onError api env s = onError TypeError env s"
  by (simp add: handler_def select_event EventsReceivedRequestHandler_canHandle_def)

section \<open>Setting the speed\<close>

lemma show_int_small:
  "show_int 1 = ''1''" "show_int 2 = ''2''" "show_int 42 = ''42''" "show_int 100 = ''100''"
  by (simp_all add: show_int_def digits.simps digit_char_def)

lemma parseInt_samples:
  "parseInt (Str ''-5'') = Some (- 5)" "parseInt (Str ''500'') = Some 500"
  "parseInt (Str ''42'') = Some 42" "parseInt (Str ''15'') = Some 15"
  "parseInt (Str ''?'') = None" "parseInt Null = None" "parseInt Undefined = None"
  by (simp_all add: parseInt_def parseInt_string_def is_js_space_def has_hex_prefix_def
      is_radix_digit_def digit_val_def digits_value_def Let_def)

text \<open>
  Claim C2 holds of the code only where the slot parses. When \<^verbatim>\<open>parseInt\<close> finds no
  digit, as for the value \<^verbatim>\<open>?\<close>, \<^verbatim>\<open>Math.min\<close> and \<^verbatim>\<open>Math.max\<close> pass \<^verbatim>\<open>NaN\<close> on:
  the handler stores \<^verbatim>\<open>NaN\<close> as the speed, which is not between 1 and 100, and says so.
\<close>

theorem SetSpeed_unparsable_stores_NaN:
  "SetSpeedIntentHandler_handle
     (intent_request ''r7'' ''SetSpeedIntent'' [(''Speed'', Str ''?'')]) live_session
   = Inr (\<lparr>outputSpeech = Some (''speed set to NaN percent.'' @ BG_MUSIC), playBehavior = None,
           directives = [], shouldEndSession = None\<rparr>,
          live_session\<lparr>speed := NaN\<rparr>)"
  by (simp add: SetSpeedIntentHandler_handle_def intent_request_def getSlotValue_def
      slot_value_def getRequestType_def builder_defs parseInt_samples Math_min_def Math_max_def
      bound_speed_def)

text \<open>Where the slot parses to \<open>n\<close>, the stored speed is \<open>n\<close> bounded by 1 and 100.\<close>

lemma SetSpeed_clamps:
  assumes "getSlotValue env ''Speed'' = Inr raw" and "parseInt raw = Some n"
  shows "\<exists>r w. SetSpeedIntentHandler_handle env s = Inr (r, s\<lparr>speed := Num w\<rparr>)
               \<and> sint w = max 1 (min 100 n)"
proof -
  have exact: "sint (word_of_int (max 1 (min 100 n)) :: 54 word) = max 1 (min 100 n)"
    by (simp add: sint_sbintrunc' signed_take_bit_int_eq_self)
  have "SetSpeedIntentHandler_handle env s =
          Inr (speak (''speed set to '' @ to_string (Num (word_of_int (max 1 (min 100 n))))
                      @ '' percent.'' @ BG_MUSIC) responseBuilder,
               s\<lparr>speed := Num (word_of_int (max 1 (min 100 n)))\<rparr>)"
    using assms
    by (simp add: SetSpeedIntentHandler_handle_def Math_min_def Math_max_def bound_speed_def)
  with exact show ?thesis by blast
qed

lemma SetSpeed_samples:
  "snd (projr (SetSpeedIntentHandler_handle
     (intent_request ''r7'' ''SetSpeedIntent'' [(''Speed'', Str ''-5'')]) live_session))
   = live_session\<lparr>speed := Num 1\<rparr>"
  "snd (projr (SetSpeedIntentHandler_handle
     (intent_request ''r7'' ''SetSpeedIntent'' [(''Speed'', Str ''500'')]) live_session))
   = live_session\<lparr>speed := Num 100\<rparr>"
  "snd (projr (SetSpeedIntentHandler_handle
     (intent_request ''r7'' ''SetSpeedIntent'' [(''Speed'', Str ''42'')]) live_session))
   = live_session\<lparr>speed := Num 42\<rparr>"
  by (simp_all add: SetSpeedIntentHandler_handle_def intent_request_def getSlotValue_def
      slot_value_def getRequestType_def parseInt_samples Math_min_def Math_max_def
      bound_speed_def)

section \<open>Expiry of the timer\<close>

text \<open>
  Claim C3. For an \<^verbatim>\<open>Expired\<close> request: with no extension left the response ends the
  session and carries no directive; with a positive budget the stored budget goes down
  by one, the request's id becomes the stored token, one timer directive with that token
  and 60000 ms is issued, the speech names the budget that remains, and the response does
  not end the session.
\<close>

theorem expiry_renews_or_ends:
  assumes "rq_type env = ''CustomInterfaceController.Expired''"
  shows "(or_zero (duration s) = 0 \<longrightarrow>
            shouldEndSession (fst (handler common onError api env s)) = Some True
          \<and> directives (fst (handler common onError api env s)) = [])
       \<and> (0 < or_zero (duration s) \<longrightarrow>
            duration (snd (handler common onError api env s)) = Some (or_zero (duration s) - 1)
          \<and> token (snd (handler common onError api env s)) = Str (requestId env)
          \<and> directives (fst (handler common onError api env s))
              = [StartEventHandler (requestId env) 60000 []]
          \<and> outputSpeech (fst (handler common onError api env s))
              = Some (show_int (or_zero (duration s) - 1) @ '' minutes remaining.'' @ BG_MUSIC)
          \<and> shouldEndSession (fst (handler common onError api env s)) = None)"
  using assms
  by (simp add: handler_def select_expired ExpiredRequestHandler_handle_def Let_def builder_defs)

theorem expiry_renews_or_ends_witness:
  "rq_type (plain_request ''CustomInterfaceController.Expired'' ''r9'')
     = ''CustomInterfaceController.Expired''
   \<and> or_zero (duration new_session) = 0
   \<and> shouldEndSession (fst (handler Common_drop Common_ErrorHandler None
         (plain_request ''CustomInterfaceController.Expired'' ''r9'') new_session)) = Some True
   \<and> directives (fst (handler Common_drop Common_ErrorHandler None
         (plain_request ''CustomInterfaceController.Expired'' ''r9'') new_session)) = []
   \<and> 0 < or_zero (duration live_session)
   \<and> duration (snd (handler Common_drop Common_ErrorHandler None
         (plain_request ''CustomInterfaceController.Expired'' ''r9'') live_session)) = Some 2
   \<and> token (snd (handler Common_drop Common_ErrorHandler None
         (plain_request ''CustomInterfaceController.Expired'' ''r9'') live_session)) = Str ''r9''
   \<and> directives (fst (handler Common_drop Common_ErrorHandler None
         (plain_request ''CustomInterfaceController.Expired'' ''r9'') live_session))
       = [StartEventHandler ''r9'' 60000 []]
   \<and> outputSpeech (fst (handler Common_drop Common_ErrorHandler None
         (plain_request ''CustomInterfaceController.Expired'' ''r9'') live_session))
       = Some (''2 minutes remaining.'' @ BG_MUSIC)
   \<and> shouldEndSession (fst (handler Common_drop Common_ErrorHandler None
         (plain_request ''CustomInterfaceController.Expired'' ''r9'') live_session)) = None"
  using expiry_renews_or_ends [of "plain_request ''CustomInterfaceController.Expired'' ''r9''"
          new_session Common_drop Common_ErrorHandler None]
        expiry_renews_or_ends [of "plain_request ''CustomInterfaceController.Expired'' ''r9''"
          live_session Common_drop Common_ErrorHandler None]
  by (simp add: plain_request_def new_session_def live_session_def or_zero_def show_int_small)

section \<open>Predicates\<close>

text \<open>
  Claim C4, amended. Every predicate of this file returns a boolean, unless the request is
  an \<^verbatim>\<open>IntentRequest\<close> without its \<^verbatim>\<open>intent\<close>, an \<^verbatim>\<open>EventsReceived\<close> request without
  its \<^verbatim>\<open>events\<close> array, or an \<^verbatim>\<open>EventsReceived\<close> request with the stored token whose
  \<^verbatim>\<open>events\<close> array is empty or whose first event has no \<^verbatim>\<open>endpoint\<close>.
\<close>

theorem predicates_return:
  assumes "rq_type env \<noteq> ''IntentRequest'' \<or> intent env \<noteq> None"
    and "rq_type env \<noteq> ''CustomInterfaceController.EventsReceived''
         \<or> (\<exists>evs. events env = Some evs
               \<and> (\<not> strict_eq (token s) (rq_token env)
                   \<or> (\<exists>ev rest rid. evs = ev # rest \<and> endpoint_endpointId ev = Some rid)))"
  shows "\<exists>b. canHandle h env s = Inr b"
  using assms
  by (cases h) (auto simp: canHandle_defs EventsReceivedRequestHandler_canHandle_def)

theorem predicates_return_witness:
  "intent (event_request (Str ''t1'') [gadget_event ''Speech'' ''E1'' []]) = None
   \<and> rq_type (event_request (Str ''t1'') [gadget_event ''Speech'' ''E1'' []]) \<noteq> ''IntentRequest''
   \<and> (\<exists>evs. events (event_request (Str ''t1'') [gadget_event ''Speech'' ''E1'' []]) = Some evs
         \<and> (\<exists>ev rest rid. evs = ev # rest \<and> endpoint_endpointId ev = Some rid))
   \<and> (\<exists>b. canHandle EventsReceivedRequestHandler
             (event_request (Str ''t1'') [gadget_event ''Speech'' ''E1'' []]) live_session = Inr b)
   \<and> rq_type (intent_request ''r7'' ''TakeIntent'' []) = ''IntentRequest''
   \<and> intent (intent_request ''r7'' ''TakeIntent'' []) \<noteq> None
   \<and> (\<exists>b. canHandle TakeIntentHandler (intent_request ''r7'' ''TakeIntent'' []) live_session
             = Inr b)"
  using predicates_return [of "event_request (Str ''t1'') [gadget_event ''Speech'' ''E1'' []]"
      live_session EventsReceivedRequestHandler]
    predicates_return [of "intent_request ''r7'' ''TakeIntent'' []" live_session
      TakeIntentHandler]
  by (simp add: event_request_def gadget_event_def intent_request_def)

text \<open>
  Claim C4 as stated fails: with the matching token \<open>t1\<close>, the predicate of the event
  handler raises on an empty \<^verbatim>\<open>events\<close> array and on a first event without \<^verbatim>\<open>endpoint\<close>.
\<close>

theorem matching_event_without_endpoint_raises:
  "strict_eq (token live_session) (rq_token (event_request (Str ''t1'') []))
   \<and> canHandle EventsReceivedRequestHandler (event_request (Str ''t1'') []) live_session
       = Inl TypeError
   \<and> canHandle EventsReceivedRequestHandler
       (event_request (Str ''t1'')
          [\<lparr>header_name = Some (Str ''Speech''), endpoint_endpointId = None, payload = Some []\<rparr>])
       live_session
       = Inl TypeError"
  by (simp add: EventsReceivedRequestHandler_canHandle_def event_request_def live_session_def)

text \<open>
  The other two shapes on which a predicate raises: an event request without \<^verbatim>\<open>events\<close>,
  whatever its token, and an intent request without \<^verbatim>\<open>intent\<close>.
\<close>

lemma predicates_raise:
  "canHandle EventsReceivedRequestHandler
     (plain_request ''CustomInterfaceController.EventsReceived'' ''r8'') live_session
   = Inl TypeError"
  "canHandle ComeIntentHandler (plain_request ''IntentRequest'' ''r7'') live_session
   = Inl TypeError"
  by (simp_all add: EventsReceivedRequestHandler_canHandle_def canHandle_defs plain_request_def)

section \<open>Command intents\<close>

text \<open>
  Claim C5 holds of three handlers and not of the other two. \<^verbatim>\<open>MoveIntentHandler\<close> does
  not check its \<^verbatim>\<open>Direction\<close> slot: for a request without it the handler sends a
  directive whose direction is \<^verbatim>\<open>null\<close> and speaks the word "null" as the direction,
  where the claim has a re-prompt, an open session and no directive.
\<close>

theorem Move_without_direction_sends_directive:
  "getSlotValue (intent_request ''r7'' ''MoveIntent'' [(''Duration'', Str ''3'')]) ''Direction''
     = Inr Null
   \<and> MoveIntentHandler_handle (intent_request ''r7'' ''MoveIntent'' [(''Duration'', Str ''3'')])
       live_session
     = Inr (\<lparr>outputSpeech = Some (''null 3 seconds at 50 percent speed'' @ BG_MUSIC),
             playBehavior = None,
             directives = [SendDirective (Str ''E1'') ''Custom.Mindstorms.Gadget'' ''control''
                             [(''type'', Str ''move''), (''direction'', Null),
                              (''duration'', Str ''3''), (''speed'', Str ''50'')]],
             shouldEndSession = None\<rparr>,
            live_session)"
  by (simp add: MoveIntentHandler_handle_def intent_request_def live_session_def
      getSlotValue_def slot_value_def getRequestType_def Util_build_def js_or_def builder_defs
      NAMESPACE_def NAME_CONTROL_def)

text \<open>
  The handlers of \<^verbatim>\<open>BringIntent\<close>, \<^verbatim>\<open>TakeIntent\<close> and \<^verbatim>\<open>SetCommandIntent\<close> do what the
  claim says: a missing or empty slot gives the re-prompt, with the session kept open, no
  directive and the session attributes as they were.
\<close>

lemma missing_slot_reprompt:
  "getSlotValue env ''Bring'' = Inr v \<Longrightarrow> \<not> truthy v \<Longrightarrow>
     BringIntentHandler_handle env s = Inr (reprompt, s)"
  "getSlotValue env ''Take'' = Inr v \<Longrightarrow> \<not> truthy v \<Longrightarrow>
     TakeIntentHandler_handle env s = Inr (reprompt, s)"
  "getSlotValue env ''Command'' = Inr v \<Longrightarrow> \<not> truthy v \<Longrightarrow>
     SetCommandIntentHandler_handle env s = Inr (reprompt, s)"
  by (simp_all add: BringIntentHandler_handle_def TakeIntentHandler_handle_def
      SetCommandIntentHandler_handle_def reprompt_def builder_defs)

text \<open>
  Claim C6 holds of four handlers and not of \<^verbatim>\<open>ComeIntentHandler\<close>, whose body returns a
  fixed sentence before the directive is built (the rest of the body is commented out):
  a \<^verbatim>\<open>ComeIntent\<close> request is answered with "Hello, finally hit" and no directive.
\<close>

theorem Come_sends_no_directive:
  "canHandle ComeIntentHandler (intent_request ''r7'' ''ComeIntent'' []) live_session = Inr True
   \<and> handler Common_drop Common_ErrorHandler None
       (intent_request ''r7'' ''ComeIntent'' []) live_session
     = (\<lparr>outputSpeech = Some ''Hello, finally hit'', playBehavior = None, directives = [],
          shouldEndSession = None\<rparr>, live_session)"
  by (simp add: handler_def requestHandlers_def canHandle_defs intent_request_def
      ComeIntentHandler_handle_def builder_defs)

text \<open>
  The other four handlers, with their slot present and a gadget in the session, leave the
  session as it was and issue one directive to the stored endpoint, whose payload has the
  handler's \<open>type\<close>, the slot values and the stored speed (\<^verbatim>\<open>"50"\<close> when none is stored).
\<close>

lemma command_directives:
  assumes "truthy (endpointId s)" and "endpointId s \<noteq> EmptyArray"
  shows "getSlotValue env ''Bring'' = Inr v \<Longrightarrow> truthy v \<Longrightarrow>
           \<exists>r. BringIntentHandler_handle env s = Inr (r, s) \<and> directives r =
             [SendDirective (endpointId s) NAMESPACE NAME_CONTROL
                [(''type'', Str ''bring''), (''command'', v),
                 (''speed'', js_or (speed s) (Str ''50''))]]"
    and "getSlotValue env ''Take'' = Inr v \<Longrightarrow> truthy v \<Longrightarrow>
           \<exists>r. TakeIntentHandler_handle env s = Inr (r, s) \<and> directives r =
             [SendDirective (endpointId s) NAMESPACE NAME_CONTROL
                [(''type'', Str ''take''), (''command'', v),
                 (''speed'', js_or (speed s) (Str ''50''))]]"
    and "getSlotValue env ''Command'' = Inr v \<Longrightarrow> truthy v \<Longrightarrow>
           \<exists>r. SetCommandIntentHandler_handle env s = Inr (r, s) \<and> directives r =
             [SendDirective (endpointId s) NAMESPACE NAME_CONTROL
                [(''type'', Str ''command''), (''command'', v),
                 (''speed'', js_or (speed s) (Str ''50''))]]"
    and "getSlotValue env ''Direction'' = Inr v \<Longrightarrow> getSlotValue env ''Duration'' = Inr d \<Longrightarrow>
           \<exists>r. MoveIntentHandler_handle env s = Inr (r, s) \<and> directives r =
             [SendDirective (endpointId s) NAMESPACE NAME_CONTROL
                [(''type'', Str ''move''), (''direction'', v),
                 (''duration'', js_or d (Str ''2'')),
                 (''speed'', js_or (speed s) (Str ''50''))]]"
  using assms
  by (simp_all add: BringIntentHandler_handle_def TakeIntentHandler_handle_def
      SetCommandIntentHandler_handle_def MoveIntentHandler_handle_def Util_build_def js_or_def
      builder_defs Let_def)

section \<open>Launch\<close>

text \<open>
  Claim C7. A \<^verbatim>\<open>LaunchRequest\<close> for which discovery lists no endpoint is answered with the
  sentence that no EV3 Brick was found, carries no directive, and leaves every session
  attribute as it was.
\<close>

theorem launch_without_gadget:
  assumes "rq_type env = ''LaunchRequest''" and "api = None \<or> api = Some []"
  shows "handler common onError api env s =
     (\<lparr>outputSpeech = Some ''I couldn't find an EV3 Brick connected to this Echo device. Please check to make sure your EV3 Brick is connected, and try again.'',
       playBehavior = None, directives = [], shouldEndSession = None\<rparr>, s)"
  using assms
  by (auto simp: handler_def select_launch LaunchRequestHandler_handle_def builder_defs)

theorem launch_without_gadget_witness:
  "rq_type (plain_request ''LaunchRequest'' ''r1'') = ''LaunchRequest''
   \<and> directives (fst (handler Common_drop Common_ErrorHandler (Some [])
        (plain_request ''LaunchRequest'' ''r1'') new_session)) = []
   \<and> snd (handler Common_drop Common_ErrorHandler (Some [])
        (plain_request ''LaunchRequest'' ''r1'') new_session) = new_session"
  using launch_without_gadget [of "plain_request ''LaunchRequest'' ''r1''" "Some []"
      Common_drop Common_ErrorHandler new_session]
  by (simp add: plain_request_def)

text \<open>
  Claim C8, amended. A \<^verbatim>\<open>LaunchRequest\<close> for which discovery lists at least one endpoint
  stores the first endpoint's id when it is present and not empty, and an empty array in
  its place otherwise; it stores 10 as the duration and the request's id as the token,
  and issues one timer directive with that token and 60000 ms.
\<close>

theorem launch_with_gadget:
  assumes "rq_type env = ''LaunchRequest''" and "api = Some (e # es)"
  shows "endpointId (snd (handler common onError api env s)) = (if truthy e then e else EmptyArray)
       \<and> duration (snd (handler common onError api env s)) = Some 10
       \<and> token (snd (handler common onError api env s)) = Str (requestId env)
       \<and> directives (fst (handler common onError api env s))
           = [StartEventHandler (requestId env) 60000 []]"
  using assms
  by (simp add: handler_def select_launch LaunchRequestHandler_handle_def builder_defs
      js_or_def Let_def)

theorem launch_with_gadget_witness:
  "rq_type (plain_request ''LaunchRequest'' ''r1'') = ''LaunchRequest''
   \<and> endpointId (snd (handler Common_drop Common_ErrorHandler (Some [Str ''E1''])
        (plain_request ''LaunchRequest'' ''r1'') new_session)) = Str ''E1''
   \<and> duration (snd (handler Common_drop Common_ErrorHandler (Some [Str ''E1''])
        (plain_request ''LaunchRequest'' ''r1'') new_session)) = Some 10
   \<and> token (snd (handler Common_drop Common_ErrorHandler (Some [Str ''E1''])
        (plain_request ''LaunchRequest'' ''r1'') new_session)) = Str ''r1''
   \<and> directives (fst (handler Common_drop Common_ErrorHandler (Some [Str ''E1''])
        (plain_request ''LaunchRequest'' ''r1'') new_session)) = [StartEventHandler ''r1'' 60000 []]"
  using launch_with_gadget [of "plain_request ''LaunchRequest'' ''r1''" "Some [Str ''E1'']"
      "Str ''E1''" "[]" Common_drop Common_ErrorHandler new_session]
  by (simp add: plain_request_def)

text \<open>
  Claim C8 as stated fails where the first endpoint's id is the empty string: the guard
  \<^verbatim>\<open>|| []\<close> stores an empty array, not the id.
\<close>

theorem launch_with_empty_id_stores_array:
  "rq_type (plain_request ''LaunchRequest'' ''r1'') = ''LaunchRequest''
   \<and> endpointId (snd (handler Common_drop Common_ErrorHandler (Some [Str []])
        (plain_request ''LaunchRequest'' ''r1'') new_session)) = EmptyArray
   \<and> endpointId (snd (handler Common_drop Common_ErrorHandler (Some [Str []])
        (plain_request ''LaunchRequest'' ''r1'') new_session)) \<noteq> Str []"
  by (simp add: handler_def requestHandlers_def canHandle_defs plain_request_def
      LaunchRequestHandler_handle_def js_or_def Let_def)

section \<open>Repeating an intent\<close>

text \<open>
  A handler that builds a directive, given the slot it insists on and a gadget in the
  session, answers with exactly one directive: the command directive for the stored
  endpoint whose payload is \<open>command_payload\<close> of the intent and the stored speed
  (\<^verbatim>\<open>"50"\<close> when none is stored). The session stays as it was.
\<close>

lemma command_handle_directive:
  assumes "h \<in> set directive_handlers"
    and "rq_type r = ''IntentRequest''" and "intent r = Some i"
    and "slot_present h i"
    and "truthy (endpointId s)" and "endpointId s \<noteq> EmptyArray"
  shows "\<exists>resp. handle api h r s = Inr (resp, s)
           \<and> directives resp =
               [SendDirective (endpointId s) NAMESPACE NAME_CONTROL
                  (command_payload h i (js_or (speed s) (Str ''50'')))]"
  using assms
  by (auto simp: directive_handlers_def BringIntentHandler_handle_def
      TakeIntentHandler_handle_def MoveIntentHandler_handle_def
      SetCommandIntentHandler_handle_def getSlotValue_def getRequestType_def Util_build_def
      js_or_def builder_defs Let_def)

text \<open>
  Claim C9. The same bring, take, move or command intent, issued in two requests (whose
  ids and other fields may differ) with its slot present and a gadget in the session, is
  answered both times with one directive, the same in both answers: the command
  directive whose payload is a function of the intent's slots and of the session alone;
  the first answer leaves the session as it was. (\<^verbatim>\<open>ComeIntentHandler\<close> builds no
  directive, so there is none to compare.)
\<close>

theorem repeated_intent_same_directive:
  assumes "h \<in> set directive_handlers"
    and "rq_type r1 = ''IntentRequest''" and "rq_type r2 = ''IntentRequest''"
    and "intent r1 = Some i" and "intent r2 = Some i"
    and "slot_present h i"
    and "truthy (endpointId s)" and "endpointId s \<noteq> EmptyArray"
  shows "\<exists>resp1 resp2.
           handle api h r1 s = Inr (resp1, s)
         \<and> handle api2 h r2 s = Inr (resp2, s)
         \<and> directives resp1 =
             [SendDirective (endpointId s) NAMESPACE NAME_CONTROL
                (command_payload h i (js_or (speed s) (Str ''50'')))]
         \<and> directives resp2 = directives resp1"
proof -
  obtain resp1 where first: "handle api h r1 s = Inr (resp1, s)"
    and d1: "directives resp1 =
               [SendDirective (endpointId s) NAMESPACE NAME_CONTROL
                  (command_payload h i (js_or (speed s) (Str ''50'')))]"
    using command_handle_directive [OF assms(1,2,4,6,7,8)] by blast
  obtain resp2 where second: "handle api2 h r2 s = Inr (resp2, s)"
    and d2: "directives resp2 =
               [SendDirective (endpointId s) NAMESPACE NAME_CONTROL
                  (command_payload h i (js_or (speed s) (Str ''50'')))]"
    using command_handle_directive [OF assms(1,3,5,6,7,8)] by blast
  from first second d1 d2 show ?thesis by simp
qed

theorem repeated_intent_same_directive_witness:
  "BringIntentHandler \<in> set directive_handlers
   \<and> slot_present BringIntentHandler \<lparr>intent_name = ''BringIntent'', intent_slots = Some [(''Bring'', Str ''cup'')]\<rparr>
   \<and> truthy (endpointId live_session) \<and> endpointId live_session \<noteq> EmptyArray
   \<and> (\<exists>resp1 resp2.
         handle None BringIntentHandler
           (intent_request ''r7'' ''BringIntent'' [(''Bring'', Str ''cup'')]) live_session
           = Inr (resp1, live_session)
       \<and> handle None BringIntentHandler
           (intent_request ''r8'' ''BringIntent'' [(''Bring'', Str ''cup'')]) live_session
           = Inr (resp2, live_session)
       \<and> directives resp1 =
           [SendDirective (Str ''E1'') ''Custom.Mindstorms.Gadget'' ''control''
              [(''type'', Str ''bring''), (''command'', Str ''cup''), (''speed'', Str ''50'')]]
       \<and> directives resp2 = directives resp1)
   \<and> MoveIntentHandler \<in> set directive_handlers
   \<and> (\<exists>resp1 resp2.
         handle None MoveIntentHandler
           (intent_request ''r7'' ''MoveIntent'' [(''Direction'', Str ''forward''), (''Duration'', Str ''3'')])
           (live_session\<lparr>speed := Num 70\<rparr>)
           = Inr (resp1, live_session\<lparr>speed := Num 70\<rparr>)
       \<and> handle None MoveIntentHandler
           (intent_request ''r8'' ''MoveIntent'' [(''Direction'', Str ''forward''), (''Duration'', Str ''3'')])
           (live_session\<lparr>speed := Num 70\<rparr>)
           = Inr (resp2, live_session\<lparr>speed := Num 70\<rparr>)
       \<and> directives resp1 =
           [SendDirective (Str ''E1'') ''Custom.Mindstorms.Gadget'' ''control''
              [(''type'', Str ''move''), (''direction'', Str ''forward''),
               (''duration'', Str ''3''), (''speed'', Num 70)]]
       \<and> directives resp2 = directives resp1)"
  using repeated_intent_same_directive
      [of BringIntentHandler
          "intent_request ''r7'' ''BringIntent'' [(''Bring'', Str ''cup'')]"
          "intent_request ''r8'' ''BringIntent'' [(''Bring'', Str ''cup'')]"
          "\<lparr>intent_name = ''BringIntent'', intent_slots = Some [(''Bring'', Str ''cup'')]\<rparr>"
          live_session None None]
    repeated_intent_same_directive
      [of MoveIntentHandler
          "intent_request ''r7'' ''MoveIntent'' [(''Direction'', Str ''forward''), (''Duration'', Str ''3'')]"
          "intent_request ''r8'' ''MoveIntent'' [(''Direction'', Str ''forward''), (''Duration'', Str ''3'')]"
          "\<lparr>intent_name = ''MoveIntent'', intent_slots = Some [(''Direction'', Str ''forward''), (''Duration'', Str ''3'')]\<rparr>"
          "live_session\<lparr>speed := Num 70\<rparr>" None None]
  by (simp add: directive_handlers_def intent_request_def live_session_def slot_value_def
      js_or_def NAMESPACE_def NAME_CONTROL_def)

section \<open>Events that assign no speech\<close>

text \<open>
  Claim C10. For an event request that the predicate has validated, a \<^verbatim>\<open>Proximity\<close>
  event whose distance, as the handler reads it with \<^verbatim>\<open>parseInt\<close>, is 10 or more, and a
  \<^verbatim>\<open>Sentry\<close> event whose payload has neither the key \<^verbatim>\<open>fire\<close> nor the key \<^verbatim>\<open>move\<close>,
  leave \<^verbatim>\<open>speechOutput\<close> unassigned: the response speaks the text "undefined" followed
  by the background music tag, carries no directive, and the session attributes stay as
  they were.
\<close>

theorem unassigned_speech_is_spoken_as_undefined:
  assumes "canHandle EventsReceivedRequestHandler env s = Inr True"
    and "events env = Some (ev # rest)" and "payload ev = Some pl"
    and "(header_name ev = Some (Str ''Proximity'')
            \<and> (\<exists>d. parseInt (get_prop pl ''distance'') = Some d \<and> 10 \<le> d))
         \<or> (header_name ev = Some (Str ''Sentry'')
            \<and> \<not> has_key ''fire'' pl \<and> \<not> has_key ''move'' pl)"
  shows "handler common onError api env s =
     (\<lparr>outputSpeech = Some (''undefined'' @ BG_MUSIC), playBehavior = Some ''REPLACE_ALL'',
       directives = [], shouldEndSession = None\<rparr>, s)"
proof -
  have ok: "EventsReceivedRequestHandler_canHandle env s = Inr True"
    using assms(1) by simp
  then have sel: "getRequestHandler requestHandlers env s = Inr (Some EventsReceivedRequestHandler)"
    by (simp add: select_event validated_is_event)
  have "EventsReceivedRequestHandler_handle env s = speak_event Undefined s"
    using assms(2,3,4)
    by (auto simp: EventsReceivedRequestHandler_handle_def less_than_def)
  then show ?thesis
    using sel by (simp add: handler_def speak_event_def builder_defs)
qed

theorem unassigned_speech_is_spoken_as_undefined_witness:
  "canHandle EventsReceivedRequestHandler
     (event_request (Str ''t1'') [gadget_event ''Proximity'' ''E1'' [(''distance'', Num 15)]])
     live_session = Inr True
   \<and> parseInt (get_prop [(''distance'', Num 15)] ''distance'') = Some 15
   \<and> handler Common_drop Common_ErrorHandler None
       (event_request (Str ''t1'') [gadget_event ''Proximity'' ''E1'' [(''distance'', Num 15)]])
       live_session
     = (\<lparr>outputSpeech = Some (''undefined'' @ BG_MUSIC), playBehavior = Some ''REPLACE_ALL'',
          directives = [], shouldEndSession = None\<rparr>, live_session)
   \<and> canHandle EventsReceivedRequestHandler
       (event_request (Str ''t1'') [gadget_event ''Sentry'' ''E1'' [(''seen'', Num 1)]])
       live_session = Inr True
   \<and> \<not> has_key ''fire'' [(''seen'', Num 1)] \<and> \<not> has_key ''move'' [(''seen'', Num 1)]
   \<and> handler Common_drop Common_ErrorHandler None
       (event_request (Str ''t1'') [gadget_event ''Sentry'' ''E1'' [(''seen'', Num 1)]])
       live_session
     = (\<lparr>outputSpeech = Some (''undefined'' @ BG_MUSIC), playBehavior = Some ''REPLACE_ALL'',
          directives = [], shouldEndSession = None\<rparr>, live_session)"
proof -
  have v1: "canHandle EventsReceivedRequestHandler
     (event_request (Str ''t1'') [gadget_event ''Proximity'' ''E1'' [(''distance'', Num 15)]])
     live_session = Inr True"
    by (simp add: EventsReceivedRequestHandler_canHandle_def sample_defs)
  have v2: "canHandle EventsReceivedRequestHandler
       (event_request (Str ''t1'') [gadget_event ''Sentry'' ''E1'' [(''seen'', Num 1)]])
       live_session = Inr True"
    by (simp add: EventsReceivedRequestHandler_canHandle_def sample_defs)
  have d: "parseInt (get_prop [(''distance'', Num 15)] ''distance'') = Some 15"
    by (simp add: get_prop_def parseInt_def parseInt_string_def is_js_space_def
        has_hex_prefix_def is_radix_digit_def digit_val_def digits_value_def Let_def
        show_int_def digits.simps digit_char_def)
  have k: "\<not> has_key ''fire'' [(''seen'', Num 1)] \<and> \<not> has_key ''move'' [(''seen'', Num 1)]"
    by (simp add: has_key_def)
  show ?thesis
    using v1 v2 d k
      unassigned_speech_is_spoken_as_undefined [OF v1, of
        "gadget_event ''Proximity'' ''E1'' [(''distance'', Num 15)]" "[]"
        "[(''distance'', Num 15)]" Common_drop Common_ErrorHandler None]
      unassigned_speech_is_spoken_as_undefined [OF v2, of
        "gadget_event ''Sentry'' ''E1'' [(''seen'', Num 1)]" "[]"
        "[(''seen'', Num 1)]" Common_drop Common_ErrorHandler None]
    by (simp add: event_request_def gadget_event_def)
qed


end
